theory Spec2Isabelle
  imports
    Main
    "HOL-Library.Char_ord"
    "HOL-Library.List_Lexorder"
    "HOL-Library.Product_Lexorder"
    "HOL-Library.Multiset"
begin

section \<open>Strings and numbers as the program uses them\<close>

text \<open>
  The program is \<^verbatim>\<open>todo_app.py\<close>. Its strings are modelled as \<^typ>\<open>string\<close>, read as ASCII
  text: one \<^typ>\<open>char\<close> is one character. Characters outside ASCII are neither white space
  nor digits in this model.
\<close>

definition is_space :: "char \<Rightarrow> bool" where
  \<comment> \<open>\<^verbatim>\<open>str.isspace\<close> on ASCII: TAB, LF, VT, FF, CR, FS, GS, RS, US and the blank.\<close>
  "is_space c = ((of_char c :: nat) \<in> {9, 10, 11, 12, 13, 28, 29, 30, 31, 32})"

definition is_digit :: "char \<Rightarrow> bool" where
  "is_digit c = (48 \<le> (of_char c :: nat) \<and> (of_char c :: nat) \<le> 57)"

definition digit_val :: "char \<Rightarrow> nat" where
  "digit_val c = of_char c - 48"

definition digit_char :: "nat \<Rightarrow> char" where
  "digit_char n = char_of (48 + n)"

definition strip :: "string \<Rightarrow> string" where
  \<comment> \<open>\<^verbatim>\<open>s.strip()\<close>\<close>
  "strip s = rev (dropWhile is_space (rev (dropWhile is_space s)))"

definition lower_char :: "char \<Rightarrow> char" where
  "lower_char c =
     (if 65 \<le> (of_char c :: nat) \<and> (of_char c :: nat) \<le> 90 then char_of ((of_char c :: nat) + 32) else c)"

definition lower :: "string \<Rightarrow> string" where
  \<comment> \<open>\<^verbatim>\<open>s.lower()\<close>\<close>
  "lower s = map lower_char s"

fun startswith :: "string \<Rightarrow> string \<Rightarrow> bool" where
  \<comment> \<open>\<^verbatim>\<open>s.startswith(p)\<close>, written \<open>startswith s p\<close>\<close>
  "startswith s [] = True"
| "startswith [] (p # ps) = False"
| "startswith (c # cs) (p # ps) = (c = p \<and> startswith cs ps)"

definition endswith :: "string \<Rightarrow> string \<Rightarrow> bool" where
  "endswith s p = startswith (rev s) (rev p)"

fun contains :: "string \<Rightarrow> string \<Rightarrow> bool" where
  \<comment> \<open>\<^verbatim>\<open>p in s\<close>, written \<open>contains s p\<close>\<close>
  "contains [] p = (p = [])"
| "contains (c # cs) p = (startswith (c # cs) p \<or> contains cs p)"

definition first_word :: "string \<Rightarrow> string option" where
  \<comment> \<open>\<^verbatim>\<open>s.split()[0]\<close>; \<open>None\<close> is the \<^verbatim>\<open>IndexError\<close> of a string without a word.\<close>
  "first_word s =
     (let r = dropWhile is_space s in if r = [] then None else Some (takeWhile (\<lambda>c. \<not> is_space c) r))"

fun show_nat :: "nat \<Rightarrow> string" where
  \<comment> \<open>the decimal digits of a natural number\<close>
  "show_nat n = (if n < 10 then [digit_char n] else show_nat (n div 10) @ [digit_char (n mod 10)])"

declare show_nat.simps [simp del]

definition py_str :: "int \<Rightarrow> string" where
  \<comment> \<open>the decimal text of an integer: \<^verbatim>\<open>str(i)\<close> and the \<^verbatim>\<open>{i}\<close> of an f-string, for a number
      of at most 4300 digits\<close>
  "py_str i = (if i < 0 then CHR ''-'' # show_nat (nat (- i)) else show_nat (nat i))"

definition py_str_checked :: "int \<Rightarrow> string option" where
  \<comment> \<open>\<^verbatim>\<open>str(i)\<close> with its limit: \<open>None\<close> is the \<^verbatim>\<open>ValueError\<close> for a number of more than 4300
      digits\<close>
  "py_str_checked i = (if 4300 < length (show_nat (nat (abs i))) then None else Some (py_str i))"

fun int_digits :: "nat \<Rightarrow> string \<Rightarrow> nat option" where
  \<comment> \<open>the rest of a decimal literal after a digit: digits, or one underscore and a digit\<close>
  "int_digits acc [] = Some acc"
| "int_digits acc (c # cs) =
     (if is_digit c then int_digits (acc * 10 + digit_val c) cs
      else if c = CHR ''_'' then
        (case cs of
           [] \<Rightarrow> None
         | d # ds \<Rightarrow> if is_digit d then int_digits (acc * 10 + digit_val d) ds else None)
      else None)"

definition int_max_str_digits :: nat where
  \<comment> \<open>\<^verbatim>\<open>sys.get_int_max_str_digits()\<close>, at its default\<close>
  "int_max_str_digits = 4300"

definition is_int_space :: "char \<Rightarrow> bool" where
  \<comment> \<open>the white space \<^verbatim>\<open>int\<close> accepts around an ASCII literal: TAB, LF, VT, FF, CR and the
      blank. FS, GS, RS and US, which \<^verbatim>\<open>strip\<close> removes, make \<^verbatim>\<open>int\<close> raise.\<close>
  "is_int_space c = ((of_char c :: nat) \<in> {9, 10, 11, 12, 13, 32})"

definition int_strip :: "string \<Rightarrow> string" where
  "int_strip s = rev (dropWhile is_int_space (rev (dropWhile is_int_space s)))"

definition int_unsigned :: "string \<Rightarrow> nat option" where
  \<comment> \<open>the literal after the sign; more than \<open>int_max_str_digits\<close> digits are refused,
      leading zeros counted, underscores not\<close>
  "int_unsigned s =
     (if int_max_str_digits < length (filter is_digit s) then None
      else (case s of [] \<Rightarrow> None
            | c # cs \<Rightarrow> if is_digit c then int_digits (digit_val c) cs else None))"

definition py_int :: "string \<Rightarrow> int option" where
  \<comment> \<open>\<^verbatim>\<open>int(s)\<close> for a string: white space around, an optional sign, decimal digits with
      single underscores between them. \<open>None\<close> is the \<^verbatim>\<open>ValueError\<close>.\<close>
  "py_int s =
     (let r = int_strip s in
      if r \<noteq> [] \<and> hd r = CHR ''-'' then map_option (\<lambda>n. - int n) (int_unsigned (tl r))
      else if r \<noteq> [] \<and> hd r = CHR ''+'' then map_option int (int_unsigned (tl r))
      else map_option int (int_unsigned r))"

section \<open>Calendar dates\<close>

text \<open>
  \<^verbatim>\<open>datetime.date\<close> of the Python library: a year from 1 to 9999, a month and a day of the
  proleptic Gregorian calendar. The library is not part of the repository; the definitions
  below follow its documented behaviour.
\<close>

datatype date = Date (year: nat) (month: nat) (day: nat)

definition is_leap :: "nat \<Rightarrow> bool" where
  "is_leap y = (y mod 4 = 0 \<and> (y mod 100 \<noteq> 0 \<or> y mod 400 = 0))"

definition days_in_month :: "nat \<Rightarrow> nat \<Rightarrow> nat" where
  "days_in_month y m =
     (if m = 2 then (if is_leap y then 29 else 28)
      else if m = 4 \<or> m = 6 \<or> m = 9 \<or> m = 11 then 30 else 31)"

definition valid_date :: "nat \<Rightarrow> nat \<Rightarrow> nat \<Rightarrow> bool" where
  \<comment> \<open>the range check of the \<^verbatim>\<open>date\<close> constructor\<close>
  "valid_date y m d = (1 \<le> y \<and> y \<le> 9999 \<and> 1 \<le> m \<and> m \<le> 12 \<and> 1 \<le> d \<and> d \<le> days_in_month y m)"

definition days_before_year :: "nat \<Rightarrow> int" where
  "days_before_year y =
     (let p = int y - 1 in p * 365 + p div 4 - p div 100 + p div 400)"

definition days_before_month :: "nat \<Rightarrow> nat \<Rightarrow> int" where
  "days_before_month y m = int (sum_list (map (days_in_month y) [1..<m]))"

definition toordinal :: "date \<Rightarrow> int" where
  \<comment> \<open>\<^verbatim>\<open>date.toordinal()\<close>: 1 is the first of January of year 1\<close>
  "toordinal dt = days_before_year (year dt) + days_before_month (year dt) (month dt) + int (day dt)"

definition days_between :: "date \<Rightarrow> date \<Rightarrow> int" where
  \<comment> \<open>\<^verbatim>\<open>(a - b).days\<close>\<close>
  "days_between a b = toordinal a - toordinal b"

definition date_less :: "date \<Rightarrow> date \<Rightarrow> bool" where
  \<comment> \<open>\<^verbatim>\<open>a < b\<close> on dates: year, then month, then day\<close>
  "date_less a b = ((year a, month a, day a) < (year b, month b, day b))"

definition pad :: "nat \<Rightarrow> string \<Rightarrow> string" where
  \<comment> \<open>zero padding on the left to a width, as \<^verbatim>\<open>%04d\<close> and \<^verbatim>\<open>%02d\<close> do\<close>
  "pad w s = replicate (w - length s) CHR ''0'' @ s"

definition isoformat :: "date \<Rightarrow> string" where
  \<comment> \<open>\<^verbatim>\<open>date.isoformat()\<close>\<close>
  "isoformat dt =
     pad 4 (show_nat (year dt)) @ ''-'' @ pad 2 (show_nat (month dt)) @ ''-'' @ pad 2 (show_nat (day dt))"

text \<open>
  \<^verbatim>\<open>datetime.strptime(s, "%Y-%m-%d").date()\<close>. The library turns the format into the regular
  expression \<^verbatim>\<open>(\d\d\d\d)-(1[0-2]|0[1-9]|[1-9])-(3[0-1]|[1-2]\d|0[1-9]|[1-9]| [1-9])\<close>, matches
  it at the start of the string, refuses a string with characters left over, and then
  builds the date, which refuses a day the month does not have and the year 0. Every
  refusal is a \<^verbatim>\<open>ValueError\<close>, here \<open>None\<close>.
\<close>

definition match_month :: "string \<Rightarrow> (nat \<times> string) option" where
  \<comment> \<open>the month group followed by the dash; the month and what is left after the dash\<close>
  "match_month s =
     (case s of
        a # b # c # r \<Rightarrow>
          if a = CHR ''1'' \<and> b \<in> set ''012'' \<and> c = CHR ''-'' then Some (10 + digit_val b, r)
          else if a = CHR ''0'' \<and> b \<in> set ''123456789'' \<and> c = CHR ''-'' then Some (digit_val b, r)
          else if a \<in> set ''123456789'' \<and> b = CHR ''-'' then Some (digit_val a, c # r)
          else None
      | [a, b] \<Rightarrow> if a \<in> set ''123456789'' \<and> b = CHR ''-'' then Some (digit_val a, []) else None
      | _ \<Rightarrow> None)"

definition match_day :: "string \<Rightarrow> (nat \<times> string) option" where
  \<comment> \<open>the day group: the first alternative that matches, and what is left after it\<close>
  "match_day s =
     (case s of
        [] \<Rightarrow> None
      | [a] \<Rightarrow> if a \<in> set ''123456789'' then Some (digit_val a, []) else None
      | a # b # r \<Rightarrow>
          if a = CHR ''3'' \<and> b \<in> set ''01'' then Some (30 + digit_val b, r)
          else if a \<in> set ''12'' \<and> is_digit b then Some (10 * digit_val a + digit_val b, r)
          else if a = CHR ''0'' \<and> b \<in> set ''123456789'' then Some (digit_val b, r)
          else if a \<in> set ''123456789'' then Some (digit_val a, b # r)
          else if a = CHR '' '' \<and> b \<in> set ''123456789'' then Some (digit_val b, r)
          else None)"

definition strptime :: "string \<Rightarrow> date option" where
  "strptime s =
     (case s of
        y1 # y2 # y3 # y4 # dash # r \<Rightarrow>
          if is_digit y1 \<and> is_digit y2 \<and> is_digit y3 \<and> is_digit y4 \<and> dash = CHR ''-'' then
            (case match_month r of
               None \<Rightarrow> None
             | Some (m, r') \<Rightarrow>
                 (case match_day r' of
                    None \<Rightarrow> None
                  | Some (d, rest) \<Rightarrow>
                      let y = 1000 * digit_val y1 + 100 * digit_val y2 + 10 * digit_val y3 + digit_val y4
                      in if rest = [] \<and> valid_date y m d then Some (Date y m d) else None))
          else None
      | _ \<Rightarrow> None)"

section \<open>Task records\<close>

text \<open>
  A task is a Python dictionary with the seven keys the program writes. The model is a
  record with these seven fields, so it speaks about records that have every key; the
  defaults of \<^verbatim>\<open>t.get(key, default)\<close> for a missing key have no counterpart. \<open>t_id\<close>,
  \<open>t_priority\<close> and \<open>t_created\<close> are arbitrary strings and \<open>t_due_date\<close> is a string or
  \<^verbatim>\<open>None\<close>, as a data file can hold them.
\<close>

record task =
  t_id :: string
  t_text :: string
  t_priority :: string
  t_due_date :: "string option"
  t_completed :: bool
  t_created :: string
  t_deleted :: bool

fun int_ids :: "task list \<Rightarrow> int list option" where
  \<comment> \<open>the generator \<^verbatim>\<open>int(t.get("id", 0)) for t in tasks\<close>: \<open>None\<close> as soon as one
      conversion raises \<^verbatim>\<open>ValueError\<close>\<close>
  "int_ids [] = Some []"
| "int_ids (t # ts) =
     (case py_int (t_id t) of
        None \<Rightarrow> None
      | Some n \<Rightarrow> (case int_ids ts of None \<Rightarrow> None | Some ns \<Rightarrow> Some (n # ns)))"

fun py_max :: "int list \<Rightarrow> int" where
  \<comment> \<open>\<^verbatim>\<open>max\<close> of a non-empty sequence\<close>
  "py_max [] = 0"
| "py_max [n] = n"
| "py_max (n # m # ns) = max n (py_max (m # ns))"

definition next_id :: "task list \<Rightarrow> int" where
  "next_id tasks =
     (if tasks = [] then 1
      else (case int_ids tasks of None \<Rightarrow> 0 | Some ns \<Rightarrow> py_max ns) + 1)"

section \<open>The view: filter, sort, annotate\<close>

text \<open>
  \<^verbatim>\<open>refresh_task_list\<close> first collects the visible records. \<open>f\<close> is the value of the filter
  radio buttons and \<open>s\<close> the search text, already lowered and stripped.
\<close>

definition keep :: "string \<Rightarrow> string \<Rightarrow> task \<Rightarrow> bool" where
  \<comment> \<open>a record is kept when none of the five \<^verbatim>\<open>continue\<close> tests fires\<close>
  "keep f s t =
     (if t_deleted t then False
      else if f = ''Pending'' \<and> t_completed t then False
      else if f = ''Completed'' \<and> \<not> t_completed t then False
      else if endswith f ''Priority'' \<and> Some (t_priority t) \<noteq> first_word f then False
      else if s \<noteq> [] \<and> \<not> contains (lower (t_text t)) s then False
      else True)"

definition visible :: "string \<Rightarrow> string \<Rightarrow> task list \<Rightarrow> task list" where
  "visible f s tasks = filter (keep f s) tasks"

definition pri_order :: "string \<rightharpoonup> nat" where
  "pri_order = [''High'' \<mapsto> 0, ''Medium'' \<mapsto> 1, ''Low'' \<mapsto> 2]"

definition pri_rank :: "string \<Rightarrow> nat" where
  \<comment> \<open>\<^verbatim>\<open>pri_order.get(p, 1)\<close>\<close>
  "pri_rank p = (case pri_order p of None \<Rightarrow> 1 | Some r \<Rightarrow> r)"

definition due_or_far :: "task \<Rightarrow> string" where
  \<comment> \<open>\<^verbatim>\<open>x.get('due_date') or "9999-12-31"\<close>: \<^verbatim>\<open>None\<close> and the empty string are both false\<close>
  "due_or_far x =
     (case t_due_date x of None \<Rightarrow> ''9999-12-31'' | Some d \<Rightarrow> if d = [] then ''9999-12-31'' else d)"

definition task_sort_key :: "task \<Rightarrow> bool \<times> nat \<times> string \<times> string" where
  \<comment> \<open>the local function \<^verbatim>\<open>sort_key\<close>; tuples, Booleans and strings are compared as Python
      compares them: component by component, \<open>False\<close> first, strings character by character\<close>
  "task_sort_key x = (t_completed x, pri_rank (t_priority x), due_or_far x, t_created x)"

definition sorted_visible :: "string \<Rightarrow> string \<Rightarrow> task list \<Rightarrow> task list" where
  \<comment> \<open>\<^verbatim>\<open>visible.sort(key=sort_key)\<close>: a stable sort\<close>
  "sorted_visible f s tasks = sort_key task_sort_key (visible f s tasks)"

definition due_info :: "date \<Rightarrow> task \<Rightarrow> string \<times> date option" where
  \<comment> \<open>the variables \<^verbatim>\<open>days_left\<close> and \<^verbatim>\<open>due_date\<close> after the \<^verbatim>\<open>if due:\<close> block of the loop\<close>
  "due_info today t =
     (case t_due_date t of
        None \<Rightarrow> (''N/A'', None)
      | Some due \<Rightarrow>
          if due = [] then (''N/A'', None)
          else
            (case strptime due of
               None \<Rightarrow> (''Invalid date'', None)
             | Some due_date \<Rightarrow>
                 let delta = days_between due_date today
                 in (if delta \<ge> 0 then py_str delta @ '' day(s)''
                     else py_str (abs delta) @ '' day(s) overdue'', Some due_date)))"

definition days_left :: "date \<Rightarrow> task \<Rightarrow> string" where
  "days_left today t = fst (due_info today t)"

definition tags :: "date \<Rightarrow> task \<Rightarrow> string list" where
  "tags today t =
     (if t_completed t then [''completed'']
      else
        (if t_priority t = ''High'' then [''high_priority'']
         else if t_priority t = ''Medium'' then [''medium_priority'']
         else [''low_priority''])
        @ (case snd (due_info today t) of
             None \<Rightarrow> []
           | Some due_date \<Rightarrow> if date_less due_date today then [''overdue''] else []))"

record row =
  v_id :: string
  v_priority :: string
  v_text :: string
  v_due :: string
  v_days_left :: string
  v_status :: string
  v_created :: string
  v_tags :: "string list"

definition make_row :: "date \<Rightarrow> task \<Rightarrow> row option" where
  \<comment> \<open>one pass of the loop over the sorted records; \<open>None\<close> is the \<^verbatim>\<open>IndexError\<close> of
      \<^verbatim>\<open>t.get('created', '').split()[0]\<close> when \<open>created\<close> holds no word. The check mark of
      the status column is written as its three UTF-8 bytes.\<close>
  "make_row today t =
     (case first_word (t_created t) of
        None \<Rightarrow> None
      | Some created \<Rightarrow>
          Some \<lparr> v_id = t_id t, v_priority = t_priority t, v_text = t_text t,
                 v_due = (case t_due_date t of None \<Rightarrow> ''No due date''
                          | Some due \<Rightarrow> if due = [] then ''No due date'' else due),
                 v_days_left = days_left today t,
                 v_status = (if t_completed t then [char_of (226 :: nat), char_of (156 :: nat), char_of (147 :: nat)] @ '' Done''
                             else ''Pending''),
                 v_created = created,
                 v_tags = tags today t \<rparr>)"

fun insert_rows :: "date \<Rightarrow> task list \<Rightarrow> row list \<times> bool" where
  \<comment> \<open>the rows inserted into the tree, and whether the loop ran to its end\<close>
  "insert_rows today [] = ([], True)"
| "insert_rows today (t # ts) =
     (case make_row today t of
        None \<Rightarrow> ([], False)
      | Some r \<Rightarrow> (case insert_rows today ts of (rs, ok) \<Rightarrow> (r # rs, ok)))"

section \<open>The application state and its handlers\<close>

text \<open>
  The state of \<^verbatim>\<open>TodoApp\<close> that the handlers read and write: the task list, the data file,
  the filter and search variables, the rows of the tree with the selected row, the open
  edit dialogs, the status bar, the statistics label, and the message boxes shown so
  far. The contents of the entry widgets are arguments of the handler that reads them.
  A Python reference to a task dictionary is the position of the record in \<open>tasks\<close>: the
  list is only appended to and updated in place, never reordered or shortened. An open
  edit dialog is the reference \<open>t\<close> its closure holds. The numbers the statistics label
  and the days-left column print have far fewer than 4300 digits.

  \<open>json.dump\<close>, \<open>json.load\<close> and the file system belong to the Python library. They are
  fields of the environment: \<open>'f\<close> is what a file holds, \<open>json_load\<close> answers \<open>None\<close> for
  any exception raised while reading, and \<open>write_fails\<close> is \<open>None\<close> when writing succeeds
  and otherwise the text of the exception with what the failed write leaves as the file.
  The model covers data files that hold a list of task records.
\<close>

datatype message = Warning string string | Error string string | Info string string

record 'f env =
  tkcalendar_available :: bool
  now :: string
  today :: date
  write_fails :: "(string \<times> 'f option) option"
  json_dump :: "task list \<Rightarrow> 'f"
  json_load :: "'f \<Rightarrow> task list option"

record 'f app =
  tasks :: "task list"
  data_file :: "'f option"
  filter_var :: string
  search_var :: string
  tree :: "row list"
  selection :: "row option"
  dialogs :: "nat list"
  status_var :: string
  stats_label :: string
  messages :: "message list"

definition show_message :: "message \<Rightarrow> 'f app \<Rightarrow> 'f app" where
  "show_message m st = st\<lparr>messages := messages st @ [m]\<rparr>"

definition load_tasks :: "'f env \<Rightarrow> 'f option \<Rightarrow> task list \<times> message list" where
  \<comment> \<open>the loaded list, and the warning shown when the file cannot be read\<close>
  "load_tasks e file =
     (case file of
        None \<Rightarrow> ([], [])
      | Some c \<Rightarrow>
          (case json_load e c of
             Some ts \<Rightarrow> (ts, [])
           | None \<Rightarrow> ([], [Warning ''Warning'' ''Could not read data file; starting with empty list.''])))"

definition save_tasks :: "'f env \<Rightarrow> 'f app \<Rightarrow> 'f app" where
  "save_tasks e st =
     (case write_fails e of
        None \<Rightarrow> st\<lparr>data_file := Some (json_dump e (tasks st))\<rparr>
      | Some (msg, left) \<Rightarrow>
          show_message (Error ''Error'' (''Failed to save tasks: '' @ msg)) (st\<lparr>data_file := left\<rparr>))"

definition stats_text :: "task list \<Rightarrow> string" where
  "stats_text ts =
     (let total = length (filter (\<lambda>x. \<not> t_deleted x) ts);
          completed = length (filter (\<lambda>x. t_completed x \<and> \<not> t_deleted x) ts);
          pending = int total - int completed
      in ''Total: '' @ py_str (int total) @ '' | Pending: '' @ py_str pending
         @ '' | Completed: '' @ py_str (int completed))"

definition refresh_task_list :: "'f env \<Rightarrow> 'f app \<Rightarrow> bool \<times> 'f app" where
  \<comment> \<open>the flag is \<open>False\<close> when the loop over the rows raised: the statistics label is then
      not written, and the handler that called stops there\<close>
  "refresh_task_list e st =
     (let f = filter_var st;
          s = strip (lower (search_var st));
          (rows, ok) = insert_rows (today e) (sorted_visible f s (tasks st));
          st1 = st\<lparr>tree := rows, selection := None\<rparr>
      in if ok then (True, st1\<lparr>stats_label := stats_text (tasks st)\<rparr>) else (False, st1))"

datatype validated = No_date | Valid date | INVALID

definition validate_date :: "string \<Rightarrow> validated" where
  "validate_date s =
     (if s = [] then No_date
      else (case strptime s of Some d \<Rightarrow> Valid d | None \<Rightarrow> INVALID))"

definition invalid_date_message :: message where
  "invalid_date_message = Error ''Error'' ''Invalid date format. Use YYYY-MM-DD.''"

definition add_task :: "'f env \<Rightarrow> string \<Rightarrow> string \<Rightarrow> string \<Rightarrow> 'f app \<Rightarrow> 'f app" where
  \<comment> \<open>\<open>entry\<close> is the content of the task entry, \<open>priority\<close> of the priority variable and
      \<open>due_widget\<close> of the due date widget. \<open>valid.isoformat()\<close> on \<^verbatim>\<open>None\<close> would raise and
      end the handler; \<open>validate_date\<close> is only called on a non-empty string. \<^verbatim>\<open>str\<close> raises
      on a next id of more than 4300 digits, which ends the handler before the list is
      touched.\<close>
  "add_task e entry priority due_widget st =
     (let text = strip entry in
      if text = [] then show_message (Warning ''Warning'' ''Please enter a task description.'') st
      else
        let due_raw = strip due_widget;
            due =
              (if tkcalendar_available e then
                 (if due_raw = [] then Inr None
                  else (case validate_date due_raw of
                          INVALID \<Rightarrow> Inl (Some invalid_date_message)
                        | Valid d \<Rightarrow> Inr (Some (isoformat d))
                        | No_date \<Rightarrow> Inl None))
               else
                 (if startswith due_raw ''YYYY'' \<or> due_raw = [] then Inr None
                  else (case validate_date due_raw of
                          INVALID \<Rightarrow> Inl (Some invalid_date_message)
                        | Valid d \<Rightarrow> Inr (Some (isoformat d))
                        | No_date \<Rightarrow> Inl None)))
        in case due of
             Inl (Some m) \<Rightarrow> show_message m st
           | Inl None \<Rightarrow> st
           | Inr due \<Rightarrow>
               (case py_str_checked (next_id (tasks st)) of
                  None \<Rightarrow> st
                | Some new_id \<Rightarrow>
                    let task = \<lparr> t_id = new_id, t_text = text, t_priority = priority,
                                 t_due_date = due, t_completed = False, t_created = now e,
                                 t_deleted = False \<rparr>;
                        st1 = st\<lparr>tasks := tasks st @ [task]\<rparr>;
                        st2 = save_tasks e st1;
                        (ok, st3) = refresh_task_list e st2
                    in if ok then st3\<lparr>status_var := ''Task added: '' @ text\<rparr> else st3))"

fun find_task :: "string \<Rightarrow> task list \<Rightarrow> nat option" where
  \<comment> \<open>the loop of \<^verbatim>\<open>get_selected_task\<close>: the position of the first record with the id that
      is not deleted\<close>
  "find_task task_id [] = None"
| "find_task task_id (t # ts) =
     (if t_id t = task_id \<and> \<not> t_deleted t then Some 0
      else map_option Suc (find_task task_id ts))"

definition get_selected_task :: "'f app \<Rightarrow> nat option \<times> 'f app" where
  "get_selected_task st =
     (case selection st of
        None \<Rightarrow> (None, show_message (Warning ''Warning'' ''Please select a task.'') st)
      | Some r \<Rightarrow> (find_task (v_id r) (tasks st), st))"

definition toggle_complete :: "'f env \<Rightarrow> 'f app \<Rightarrow> 'f app" where
  "toggle_complete e st0 =
     (case get_selected_task st0 of
        (None, st) \<Rightarrow> st
      | (Some i, st) \<Rightarrow>
          let t = (tasks st ! i)\<lparr>t_completed := \<not> t_completed (tasks st ! i)\<rparr>;
              st1 = st\<lparr>tasks := (tasks st)[i := t]\<rparr>;
              st2 = save_tasks e st1;
              (ok, st3) = refresh_task_list e st2
          in if ok then
               st3\<lparr>status_var := ''Task '' @ (if t_completed t then ''completed'' else ''marked pending'')
                                  @ '': '' @ t_text t\<rparr>
             else st3)"

fun save :: "'f env \<Rightarrow> nat \<Rightarrow> string \<times> string \<times> string \<Rightarrow> 'f app \<Rightarrow> bool \<times> 'f app" where
  \<comment> \<open>the closure \<^verbatim>\<open>save\<close> of the edit dialog opened on record \<open>i\<close>, with the contents of the
      task entry, the priority variable and the date entry of the dialog. The flag tells
      whether the dialog was destroyed. Both kinds of date entry are read the same way.\<close>
  "save e i (e_task, pvar, d_entry) st =
     (let new_text = strip e_task in
      if new_text = [] then (False, show_message (Warning ''Warning'' ''Task cannot be empty.'') st)
      else
        let raw = strip d_entry;
            new_due_iso =
              (if raw = [] then Inr None
               else (case validate_date raw of
                       INVALID \<Rightarrow> Inl (Some invalid_date_message)
                     | Valid d \<Rightarrow> Inr (Some (isoformat d))
                     | No_date \<Rightarrow> Inl None))
        in case new_due_iso of
             Inl (Some m) \<Rightarrow> (False, show_message m st)
           | Inl None \<Rightarrow> (False, st)
           | Inr due \<Rightarrow>
               let t = (tasks st ! i)\<lparr>t_text := new_text, t_priority := pvar, t_due_date := due\<rparr>;
                   st1 = st\<lparr>tasks := (tasks st)[i := t]\<rparr>;
                   st2 = save_tasks e st1;
                   (ok, st3) = refresh_task_list e st2
               in if ok then (True, st3\<lparr>status_var := ''Task updated''\<rparr>) else (False, st3))"

definition edit_task :: "'f app \<Rightarrow> 'f app" where
  \<comment> \<open>\<^verbatim>\<open>edit_task\<close> up to the end of its body: the dialog is open and its closure holds the
      record found\<close>
  "edit_task st0 =
     (case get_selected_task st0 of
        (None, st) \<Rightarrow> st
      | (Some i, st) \<Rightarrow> st\<lparr>dialogs := dialogs st @ [i]\<rparr>)"

definition press_save :: "'f env \<Rightarrow> nat \<Rightarrow> string \<times> string \<times> string \<Rightarrow> 'f app \<Rightarrow> 'f app" where
  \<comment> \<open>the Save button of the open dialog number \<open>k\<close>: the closure runs on the record the
      dialog holds, and the dialog goes when the closure destroys it\<close>
  "press_save e k inp st =
     (if k < length (dialogs st) then
        (case save e (dialogs st ! k) inp st of
           (True, st') \<Rightarrow> st'\<lparr>dialogs := take k (dialogs st') @ drop (Suc k) (dialogs st')\<rparr>
         | (False, st') \<Rightarrow> st')
      else st)"

definition press_cancel :: "nat \<Rightarrow> 'f app \<Rightarrow> 'f app" where
  \<comment> \<open>the Cancel button of the open dialog number \<open>k\<close>: \<^verbatim>\<open>dlg.destroy\<close>\<close>
  "press_cancel k st =
     (if k < length (dialogs st) then st\<lparr>dialogs := take k (dialogs st) @ drop (Suc k) (dialogs st)\<rparr>
      else st)"

definition delete_task :: "'f env \<Rightarrow> bool \<Rightarrow> 'f app \<Rightarrow> 'f app" where
  \<comment> \<open>\<open>yes\<close> is the answer to the confirmation prompt\<close>
  "delete_task e yes st0 =
     (case get_selected_task st0 of
        (None, st) \<Rightarrow> st
      | (Some i, st) \<Rightarrow>
          if yes then
            let st1 = st\<lparr>tasks := (tasks st)[i := (tasks st ! i)\<lparr>t_deleted := True\<rparr>]\<rparr>;
                st2 = save_tasks e st1;
                (ok, st3) = refresh_task_list e st2
            in if ok then st3\<lparr>status_var := ''Task deleted''\<rparr> else st3
          else st)"

definition clear_completed :: "'f env \<Rightarrow> bool \<Rightarrow> 'f app \<Rightarrow> 'f app" where
  "clear_completed e yes st =
     (let comp = filter (\<lambda>t. t_completed t \<and> \<not> t_deleted t) (tasks st) in
      if comp = [] then show_message (Info ''Info'' ''No completed tasks to clear.'') st
      else if yes then
        let st1 = st\<lparr>tasks := map (\<lambda>t. if t_completed t \<and> \<not> t_deleted t then t\<lparr>t_deleted := True\<rparr> else t)
                                  (tasks st)\<rparr>;
            st2 = save_tasks e st1;
            (ok, st3) = refresh_task_list e st2
        in if ok then
             st3\<lparr>status_var := ''Cleared '' @ py_str (int (length comp)) @ '' completed tasks''\<rparr>
           else st3
      else st)"

definition export_task :: "'f env \<Rightarrow> string \<Rightarrow> string option \<Rightarrow> 'f app \<Rightarrow> 'f app" where
  \<comment> \<open>\<open>path\<close> is the answer of the file dialog, empty when it was cancelled; \<open>failure\<close> is
      \<open>None\<close> when the export file was written and otherwise the text of the exception.
      The export file itself is not part of the state.\<close>
  "export_task e path failure st0 =
     (case get_selected_task st0 of
        (None, st) \<Rightarrow> st
      | (Some i, st) \<Rightarrow>
          if path = [] then st
          else
            (case failure of
               None \<Rightarrow>
                 (show_message (Info ''Exported'' (''Task exported to '' @ path)) st)
                   \<lparr>status_var := ''Exported task '' @ t_id (tasks st ! i)\<rparr>
             | Some msg \<Rightarrow> show_message (Error ''Error'' (''Export failed: '' @ msg)) st))"

definition on_close :: "'f env \<Rightarrow> bool \<Rightarrow> 'f app \<Rightarrow> 'f app" where
  "on_close e yes st = (if yes then save_tasks e st else st)"

definition start :: "'f env \<Rightarrow> 'f option \<Rightarrow> 'f app" where
  \<comment> \<open>\<^verbatim>\<open>__init__\<close>: load the tasks, set the variables, fill the tree\<close>
  "start e file =
     (case load_tasks e file of
        (ts, ms) \<Rightarrow>
          snd (refresh_task_list e
                 \<lparr> tasks = ts, data_file = file, filter_var = ''All'', search_var = [], tree = [],
                   selection = None, dialogs = [], status_var = ''Ready'', stats_label = [],
                   messages = ms \<rparr>))"

text \<open>
  What the user can do. An action is one run of a handler. Editing takes several:
  \<^verbatim>\<open>edit_task\<close> opens a dialog on the record found, and each press of the Save button of
  the dialog runs the closure \<^verbatim>\<open>save\<close> on that record. The dialog grabs the pointer, but
  the key bindings the program makes with \<^verbatim>\<open>bind_all\<close> (Delete for \<^verbatim>\<open>delete_task\<close>, Control-e
  for \<^verbatim>\<open>edit_task\<close>, Control-q for \<^verbatim>\<open>on_close\<close>) belong to every widget, those of the dialog
  included. The model does not restrict the order of actions: what holds of every
  sequence holds of the sequences the window system lets through.
\<close>

datatype action =
    Add string string string
  | Select nat
  | Toggle
  | Edit
  | Save nat "string \<times> string \<times> string"
  | Cancel nat
  | Delete bool
  | Clear bool
  | Filter string
  | Search string
  | Export string "string option"
  | Close bool

fun step :: "'f env \<Rightarrow> action \<Rightarrow> 'f app \<Rightarrow> 'f app" where
  "step e (Add entry priority due_widget) st = add_task e entry priority due_widget st"
| "step e (Select k) st = (if k < length (tree st) then st\<lparr>selection := Some (tree st ! k)\<rparr> else st)"
| "step e Toggle st = toggle_complete e st"
| "step e Edit st = edit_task st"
| "step e (Save k inp) st = press_save e k inp st"
| "step e (Cancel k) st = press_cancel k st"
| "step e (Delete yes) st = delete_task e yes st"
| "step e (Clear yes) st = clear_completed e yes st"
| "step e (Filter f) st = snd (refresh_task_list e (st\<lparr>filter_var := f\<rparr>))"
| "step e (Search s) st = snd (refresh_task_list e (st\<lparr>search_var := s\<rparr>))"
| "step e (Export path failure) st = export_task e path failure st"
| "step e (Close yes) st = on_close e yes st"

fun run :: "('f env \<times> action) list \<Rightarrow> 'f app \<Rightarrow> 'f app" where
  \<comment> \<open>a session: actions, each in the environment of its moment\<close>
  "run [] st = st"
| "run ((e, a) # later) st = run later (step e a st)"

definition in_place :: "task list \<Rightarrow> task list \<Rightarrow> bool" where
  \<comment> \<open>\<open>ts'\<close> is \<open>ts\<close> with records updated where they are: no record added, removed or
      moved, no id or creation time changed, no deleted record restored\<close>
  "in_place ts ts' =
     (length ts' = length ts \<and>
      (\<forall>k<length ts. t_id (ts' ! k) = t_id (ts ! k) \<and> t_created (ts' ! k) = t_created (ts ! k) \<and>
         (t_deleted (ts ! k) \<longrightarrow> t_deleted (ts' ! k))))"

definition numeric_ids :: "task list \<Rightarrow> bool" where
  \<comment> \<open>every id is a string that \<^verbatim>\<open>int\<close> converts\<close>
  "numeric_ids ts = list_all (\<lambda>t. py_int (t_id t) \<noteq> None) ts"

definition id_number :: "task \<Rightarrow> int" where
  "id_number t = the (py_int (t_id t))"

definition extends :: "task list \<Rightarrow> task list \<Rightarrow> bool" where
  \<comment> \<open>\<open>ts'\<close> keeps the ids of \<open>ts\<close> in place and adds records whose ids are numbers larger
      than every id of \<open>ts\<close>\<close>
  "extends ts ts' =
     (length ts \<le> length ts' \<and> numeric_ids ts' \<and>
      (\<forall>k<length ts. t_id (ts' ! k) = t_id (ts ! k)) \<and>
      (\<forall>k<length ts'. length ts \<le> k \<longrightarrow> (\<forall>j<length ts. id_number (ts ! j) < id_number (ts' ! k))))"

section \<open>Reference definitions and example values\<close>

text \<open>
  What the specification says \<^verbatim>\<open>next_id\<close> computes: every id that is not a number counts
  as 0, and the maximum is taken over all records.
\<close>

definition id_or_zero :: "task \<Rightarrow> int" where
  "id_or_zero t = (case py_int (t_id t) of None \<Rightarrow> 0 | Some n \<Rightarrow> n)"

definition next_id_claimed :: "task list \<Rightarrow> int" where
  "next_id_claimed ts = (if ts = [] then 1 else Max (id_or_zero ` set ts) + 1)"

definition example_task :: "string \<Rightarrow> string \<Rightarrow> string option \<Rightarrow> bool \<Rightarrow> bool \<Rightarrow> task" where
  "example_task i p d c del =
     \<lparr> t_id = i, t_text = ''Buy milk'', t_priority = p, t_due_date = d, t_completed = c,
       t_created = ''2024-01-01 10:00'', t_deleted = del \<rparr>"

definition row_B :: row where
  \<comment> \<open>the row of \<open>task_B\<close> on the first of January 2030\<close>
  "row_B = \<lparr> v_id = ''2'', v_priority = ''Low'', v_text = ''Buy milk'', v_due = ''2000-01-01'',
             v_days_left = ''10958 day(s) overdue'', v_status = ''Pending'', v_created = ''2024-01-01'',
             v_tags = [''low_priority'', ''overdue''] \<rparr>"

definition example_env :: "date \<Rightarrow> (task list) env" where
  \<comment> \<open>an environment without tkcalendar, whose files hold the task list itself\<close>
  "example_env d =
     \<lparr> tkcalendar_available = False, now = ''2024-01-01 10:00'', today = d, write_fails = None,
       json_dump = (\<lambda>ts. ts), json_load = Some \<rparr>"

definition example_app :: "task list \<Rightarrow> (task list) app" where
  "example_app ts =
     \<lparr> tasks = ts, data_file = None, filter_var = ''All'', search_var = [], tree = [],
       selection = None, dialogs = [], status_var = ''Ready'', stats_label = [], messages = [] \<rparr>"

definition example_selected :: "string \<Rightarrow> task list \<Rightarrow> (task list) app" where
  \<comment> \<open>the window with a row of the given id selected\<close>
  "example_selected i ts = (example_app ts)\<lparr>selection := Some (row_B\<lparr>v_id := i\<rparr>)\<rparr>"

definition task_A :: task where
  "task_A = example_task ''1'' ''High'' (Some ''2099-01-01'') False False"

definition task_B :: task where
  "task_B = example_task ''2'' ''Low'' (Some ''2000-01-01'') False False"

definition task_C :: task where
  "task_C = example_task ''3'' ''High'' (Some ''2000-01-01'') True False"

section \<open>Evaluation lemmas\<close>

lemma digit_char_numeral:
  "digit_char 0 = CHR ''0''" "digit_char 1 = CHR ''1''" "digit_char 2 = CHR ''2''"
  "digit_char 3 = CHR ''3''" "digit_char 4 = CHR ''4''" "digit_char 5 = CHR ''5''"
  "digit_char 6 = CHR ''6''" "digit_char 7 = CHR ''7''" "digit_char 8 = CHR ''8''"
  "digit_char 9 = CHR ''9''" "digit_char (Suc 0) = CHR ''1''"
  by (simp_all add: digit_char_def char_of_def bit_Suc_0_iff)

lemma show_nat_small: "n < 10 \<Longrightarrow> show_nat n = [digit_char n]"
  by (simp add: show_nat.simps)

lemma show_nat_large: "10 \<le> n \<Longrightarrow> show_nat n = show_nat (n div 10) @ [digit_char (n mod 10)]"
  by (subst show_nat.simps) simp

lemmas eval_str = py_str_def show_nat_small show_nat_large digit_char_numeral

lemmas eval_int = py_int_def int_strip_def is_int_space_def int_unsigned_def int_max_str_digits_def
  is_digit_def digit_val_def

lemmas eval_strptime = strptime_def match_month_def match_day_def is_digit_def digit_val_def
  valid_date_def days_in_month_def is_leap_def

lemmas eval_days = days_between_def toordinal_def days_before_year_def days_before_month_def

lemma strptime_Nil: "strptime [] = None"
  by (simp add: strptime_def)

lemma strptime_2000: "strptime ''2000-01-01'' = Some (Date 2000 1 1)"
  by (simp add: eval_strptime)

lemma strptime_feb_30: "strptime ''2024-02-30'' = None"
  by (simp add: eval_strptime)

lemma days_2000_2030: "days_between (Date 2000 1 1) (Date 2030 1 1) = - 10958"
  by (simp add: eval_days)

lemma str_10958: "py_str 10958 = ''10958''"
  by (simp add: eval_str)

lemma less_2000_2030: "date_less (Date 2000 1 1) (Date 2030 1 1)"
  by (simp add: date_less_def)

lemma py_int_5: "py_int ''5'' = Some 5"
  by (simp add: eval_int)

lemma py_int_7: "py_int ''7'' = Some 7"
  by (simp add: eval_int)

lemma py_int_abc: "py_int ''abc'' = None"
  by (simp add: eval_int)

lemma first_word_created: "first_word ''2024-01-01 10:00'' = Some ''2024-01-01''"
  by (simp add: first_word_def is_space_def)

lemma days_left_B: "days_left (Date 2030 1 1) task_B = ''10958 day(s) overdue''"
  by (simp add: days_left_def due_info_def task_B_def example_task_def strptime_2000 days_2000_2030
      str_10958 del: One_nat_def)

lemma tags_B: "tags (Date 2030 1 1) task_B = [''low_priority'', ''overdue'']"
  by (simp add: tags_def due_info_def Let_def task_B_def example_task_def strptime_2000
      less_2000_2030 del: One_nat_def)

lemma make_row_B: "make_row (Date 2030 1 1) task_B = Some row_B"
  unfolding make_row_def days_left_B tags_B row_B_def
  by (simp add: task_B_def example_task_def first_word_created)

lemma key_A: "task_sort_key task_A = (False, 0, ''2099-01-01'', ''2024-01-01 10:00'')"
  by (simp add: task_sort_key_def task_A_def example_task_def pri_rank_def pri_order_def due_or_far_def)

lemma key_B: "task_sort_key task_B = (False, 2, ''2000-01-01'', ''2024-01-01 10:00'')"
  by (simp add: task_sort_key_def task_B_def example_task_def pri_rank_def pri_order_def due_or_far_def)

lemma key_C: "task_sort_key task_C = (True, 0, ''2000-01-01'', ''2024-01-01 10:00'')"
  by (simp add: task_sort_key_def task_C_def example_task_def pri_rank_def pri_order_def due_or_far_def)

lemma keep_All: "keep ''All'' [] t = (\<not> t_deleted t)"
  by (simp add: keep_def endswith_def)

lemma keep_ABC: "keep ''All'' [] task_A" "keep ''All'' [] task_B" "keep ''All'' [] task_C"
  by (simp_all add: keep_All task_A_def task_B_def task_C_def example_task_def)

section \<open>The view is a function of the task list\<close>

lemma keep_not_deleted: "keep f s t \<Longrightarrow> \<not> t_deleted t"
  by (simp add: keep_def split: if_splits)

lemma set_sorted_visible: "set (sorted_visible f s ts) = {t \<in> set ts. keep f s t}"
  by (simp add: sorted_visible_def visible_def)

lemma insert_rows_prefix:
  "fst (insert_rows ref xs) =
     map (\<lambda>t. the (make_row ref t)) (takeWhile (\<lambda>t. make_row ref t \<noteq> None) xs)"
  by (induction xs) (auto split: option.splits prod.splits)

lemma insert_rows_made:
  "r \<in> set (fst (insert_rows ref xs)) \<Longrightarrow> \<exists>t\<in>set xs. make_row ref t = Some r"
  by (induction xs arbitrary: r) (auto split: option.splits prod.splits)

lemma tree_refresh:
  "tree (snd (refresh_task_list e st)) =
     fst (insert_rows (today e) (sorted_visible (filter_var st) (strip (lower (search_var st))) (tasks st)))"
  by (simp add: refresh_task_list_def Let_def split: prod.splits)

lemma row_of_task:
  assumes "r \<in> set (tree (snd (refresh_task_list e st)))"
  shows "\<exists>t\<in>set (tasks st). \<not> t_deleted t \<and> make_row (today e) t = Some r"
proof -
  from assms obtain t where
    t: "t \<in> set (sorted_visible (filter_var st) (strip (lower (search_var st))) (tasks st))"
    and r: "make_row (today e) t = Some r"
    unfolding tree_refresh by (blast dest: insert_rows_made)
  from t have "t \<in> set (tasks st)" and "\<not> t_deleted t"
    by (auto simp: set_sorted_visible dest: keep_not_deleted)
  with r show ?thesis by blast
qed

lemma make_row_fields:
  "make_row ref t = Some r \<Longrightarrow>
     v_tags r = tags ref t \<and> v_days_left r = days_left ref t \<and> v_id r = t_id t"
  by (auto simp: make_row_def split: option.splits)

lemma tree_B:
  "tree (snd (refresh_task_list (example_env (Date 2030 1 1)) (example_app [task_B]))) = [row_B]"
proof -
  have "keep ''All'' [] task_B"
    by (simp add: keep_All task_B_def example_task_def)
  then have "sorted_visible ''All'' [] [task_B] = [task_B]"
    by (simp add: sorted_visible_def visible_def)
  then show ?thesis
    by (simp add: tree_refresh example_env_def example_app_def strip_def lower_def make_row_B
        del: One_nat_def)
qed

section \<open>The next id\<close>

lemma py_max_Max: "ns \<noteq> [] \<Longrightarrow> py_max ns = Max (set ns)"
  by (induction ns rule: py_max.induct) (auto simp: max_def)

lemma int_ids_Some:
  "\<forall>t\<in>set ts. py_int (t_id t) \<noteq> None \<Longrightarrow> int_ids ts = Some (map id_or_zero ts)"
  by (induction ts) (auto simp: id_or_zero_def)

lemma int_ids_None:
  "(int_ids ts = None) = (\<exists>t\<in>set ts. py_int (t_id t) = None)"
  by (induction ts) (auto split: option.splits)

text \<open>
  Claim C1, as amended. \<^verbatim>\<open>next_id\<close> returns 1 for an empty list. For a non-empty list in
  which every id converts with \<^verbatim>\<open>int\<close>, it returns the largest of these numbers plus 1,
  the ids of deleted records included. When some id does not convert, the maximum is
  taken as 0 for the whole list, whatever the other ids are, and \<^verbatim>\<open>next_id\<close> returns 1.
\<close>

theorem next_id_cases:
  "(ts = [] \<longrightarrow> next_id ts = 1) \<and>
   (ts \<noteq> [] \<and> (\<forall>t\<in>set ts. py_int (t_id t) \<noteq> None) \<longrightarrow>
      next_id ts = Max (id_or_zero ` set ts) + 1) \<and>
   ((\<exists>t\<in>set ts. py_int (t_id t) = None) \<longrightarrow> next_id ts = 1)"
proof (intro conjI impI)
  show "next_id ts = 1" if "ts = []"
    using that by (simp add: next_id_def)
next
  assume h: "ts \<noteq> [] \<and> (\<forall>t\<in>set ts. py_int (t_id t) \<noteq> None)"
  then have "int_ids ts = Some (map id_or_zero ts)"
    by (simp add: int_ids_Some)
  moreover have "py_max (map id_or_zero ts) = Max (id_or_zero ` set ts)"
    using h py_max_Max [of "map id_or_zero ts"] by simp
  ultimately show "next_id ts = Max (id_or_zero ` set ts) + 1"
    using h by (simp add: next_id_def)
next
  assume h: "\<exists>t\<in>set ts. py_int (t_id t) = None"
  then have "int_ids ts = None" by (simp add: int_ids_None)
  moreover from h have "ts \<noteq> []" by auto
  ultimately show "next_id ts = 1" by (simp add: next_id_def)
qed

text \<open>
  The three cases at concrete lists: the empty list, the ids 5 and 7 with the record of
  7 deleted, and the ids 5 and \<open>abc\<close>.
\<close>

theorem next_id_cases_witness:
  "next_id [] = 1 \<and>
   next_id [example_task ''5'' ''High'' None False False, example_task ''7'' ''Low'' None False True] = 8 \<and>
   next_id [example_task ''5'' ''High'' None False False, example_task ''abc'' ''Low'' None False False] = 1"
  using next_id_cases [of "[]"]
    next_id_cases [of "[example_task ''5'' ''High'' None False False, example_task ''7'' ''Low'' None False True]"]
    next_id_cases [of "[example_task ''5'' ''High'' None False False, example_task ''abc'' ''Low'' None False False]"]
  by (simp add: example_task_def id_or_zero_def py_int_5 py_int_7 py_int_abc)

text \<open>
  Claim C1 as the specification states it fails: with the ids 5 and \<open>abc\<close> the numeric id
  5 does not determine the result. The specification gives 6, the program returns 1.
\<close>

theorem next_id_counterexample:
  "next_id [example_task ''5'' ''High'' None False False, example_task ''abc'' ''Low'' None False False] = 1 \<and>
   next_id_claimed [example_task ''5'' ''High'' None False False, example_task ''abc'' ''Low'' None False False] = 6"
  by (simp add: next_id_def next_id_claimed_def example_task_def id_or_zero_def py_int_5 py_int_abc)

section \<open>Dates as strings\<close>

text \<open>
  The dates the program stores are written by \<^verbatim>\<open>isoformat\<close>: four digits, two digits, two
  digits. None of them comes after the string that stands for a missing due date.
\<close>

lemma rep: "replicate (Suc 0) x = [x]" "replicate 2 x = [x, x]" "replicate 3 x = [x, x, x]"
  by (simp_all add: numeral_2_eq_2 numeral_3_eq_3)

lemma div_10: "(n::nat) div 10 div 10 = n div 100" "(n::nat) div 10 div 100 = n div 1000"
  by (simp_all flip: div_mult2_eq)

lemma show_nat_2: "10 \<le> n \<Longrightarrow> n < 100 \<Longrightarrow> show_nat n = [digit_char (n div 10), digit_char (n mod 10)]"
  by (simp add: show_nat_large [of n] show_nat_small [of "n div 10"])

lemma show_nat_3:
  "100 \<le> n \<Longrightarrow> n < 1000 \<Longrightarrow>
     show_nat n = [digit_char (n div 100), digit_char (n div 10 mod 10), digit_char (n mod 10)]"
  using show_nat_2 [of "n div 10"] by (simp add: show_nat_large [of n] div_10)

lemma show_nat_4:
  "1000 \<le> n \<Longrightarrow> n < 10000 \<Longrightarrow>
     show_nat n = [digit_char (n div 1000), digit_char (n div 100 mod 10), digit_char (n div 10 mod 10),
       digit_char (n mod 10)]"
  using show_nat_3 [of "n div 10"] by (simp add: show_nat_large [of n] div_10)

lemma pad2: "n < 100 \<Longrightarrow> pad 2 (show_nat n) = [digit_char (n div 10), digit_char (n mod 10)]"
  by (cases "n < 10") (simp_all add: show_nat_small show_nat_2 pad_def digit_char_numeral)

lemma pad4:
  assumes "n < 10000"
  shows "pad 4 (show_nat n) =
     [digit_char (n div 1000), digit_char (n div 100 mod 10), digit_char (n div 10 mod 10),
      digit_char (n mod 10)]"
proof -
  consider "n < 10" | "10 \<le> n" "n < 100" | "100 \<le> n" "n < 1000" | "1000 \<le> n"
    by linarith
  then show ?thesis
  proof cases
    case 1
    then show ?thesis by (simp add: show_nat_small pad_def digit_char_numeral rep)
  next
    case 2
    then show ?thesis by (simp add: show_nat_2 pad_def digit_char_numeral rep)
  next
    case 3
    then show ?thesis by (simp add: show_nat_3 pad_def digit_char_numeral rep)
  next
    case 4
    with assms show ?thesis by (simp add: show_nat_4 pad_def)
  qed
qed

lemma digit_char_le: "a < 10 \<Longrightarrow> b < 10 \<Longrightarrow> (digit_char a \<le> digit_char b) = (a \<le> b)"
  by (simp add: digit_char_def less_eq_char_def)

lemma digit_char_less: "a < 10 \<Longrightarrow> b < 10 \<Longrightarrow> (digit_char a < digit_char b) = (a < b)"
  by (simp add: digit_char_def less_char_def)

lemma digit_char_eq: "a < 10 \<Longrightarrow> b < 10 \<Longrightarrow> (digit_char a = digit_char b) = (a = b)"
  using digit_char_le [of a b] digit_char_le [of b a] by auto

lemma far_literal:
  "''9999-12-31'' = [digit_char 9, digit_char 9, digit_char 9, digit_char 9, CHR ''-'',
     digit_char 1, digit_char 2, CHR ''-'', digit_char 3, digit_char 1]"
  by (simp add: digit_char_numeral)

lemma digit_le_9:
  assumes "a < 10" and "xs \<le> ys"
  shows "digit_char a # xs \<le> digit_char 9 # ys"
proof (cases "a = 9")
  case True
  with assms show ?thesis by simp
next
  case False
  with assms have "digit_char a < digit_char 9" by (simp add: digit_char_less)
  then show ?thesis by simp
qed

lemma day_le_31:
  assumes "d \<le> 31"
  shows "[digit_char (d div 10), digit_char (d mod 10)] \<le> [digit_char 3, digit_char 1]"
proof -
  from assms have "d div 10 < 3 \<or> d div 10 = 3 \<and> d mod 10 \<le> 1" by presburger
  then show ?thesis
  proof
    assume "d div 10 < 3"
    then have "digit_char (d div 10) < digit_char 3" by (simp add: digit_char_less)
    then show ?thesis by simp
  next
    assume h: "d div 10 = 3 \<and> d mod 10 \<le> 1"
    then have "digit_char (d mod 10) \<le> digit_char 1" by (simp add: digit_char_le)
    with h show ?thesis by (auto simp: le_less)
  qed
qed

lemma month_day_le:
  assumes "m \<le> 12" and "d \<le> 31"
  shows "[digit_char (m div 10), digit_char (m mod 10), CHR ''-'', digit_char (d div 10), digit_char (d mod 10)]
     \<le> [digit_char 1, digit_char 2, CHR ''-'', digit_char 3, digit_char 1]"
proof -
  from assms(1) have "m div 10 < 1 \<or> m div 10 = 1 \<and> m mod 10 < 2 \<or> m div 10 = 1 \<and> m mod 10 = 2"
    by presburger
  then show ?thesis
  proof (elim disjE)
    assume "m div 10 < 1"
    then have "digit_char (m div 10) < digit_char 1" by (simp add: digit_char_less)
    then show ?thesis by simp
  next
    assume h: "m div 10 = 1 \<and> m mod 10 < 2"
    then have "digit_char (m mod 10) < digit_char 2" by (simp add: digit_char_less)
    with h show ?thesis by simp
  next
    assume h: "m div 10 = 1 \<and> m mod 10 = 2"
    with day_le_31 [OF assms(2)] show ?thesis by simp
  qed
qed

lemma isoformat_le_far:
  assumes "valid_date y m d"
  shows "isoformat (Date y m d) \<le> ''9999-12-31''"
proof -
  from assms have y: "y < 10000" and m: "m \<le> 12" and d: "d \<le> 31"
    by (auto simp: valid_date_def days_in_month_def split: if_splits)
  have iso: "isoformat (Date y m d) =
      [digit_char (y div 1000), digit_char (y div 100 mod 10), digit_char (y div 10 mod 10),
       digit_char (y mod 10), CHR ''-'', digit_char (m div 10), digit_char (m mod 10), CHR ''-'',
       digit_char (d div 10), digit_char (d mod 10)]"
    using y m d by (simp add: isoformat_def pad4 pad2)
  have b: "y div 1000 < 10" using y by simp
  have "CHR ''-'' # [digit_char (m div 10), digit_char (m mod 10), CHR ''-'',
          digit_char (d div 10), digit_char (d mod 10)]
        \<le> CHR ''-'' # [digit_char 1, digit_char 2, CHR ''-'', digit_char 3, digit_char 1]"
    using month_day_le [OF m d] by simp
  then show ?thesis
    unfolding iso far_literal
    by (intro digit_le_9 b) simp_all
qed

section \<open>The order of the rows\<close>

lemma task_sort_key_explicit:
  "task_sort_key t =
     (t_completed t,
      (if t_priority t = ''High'' then 0 else if t_priority t = ''Low'' then 2 else 1),
      (if t_due_date t = None \<or> t_due_date t = Some [] then ''9999-12-31'' else the (t_due_date t)),
      t_created t)"
  by (auto simp: task_sort_key_def pri_rank_def pri_order_def due_or_far_def split: option.splits)

lemma sorted_ABC:
  "sorted_visible ''All'' [] [task_A, task_B, task_C] = [task_A, task_B, task_C]"
  "sorted_visible ''All'' [] [task_A, task_C, task_B] = [task_A, task_B, task_C]"
  "sorted_visible ''All'' [] [task_B, task_A, task_C] = [task_A, task_B, task_C]"
  "sorted_visible ''All'' [] [task_B, task_C, task_A] = [task_A, task_B, task_C]"
  "sorted_visible ''All'' [] [task_C, task_A, task_B] = [task_A, task_B, task_C]"
  "sorted_visible ''All'' [] [task_C, task_B, task_A] = [task_A, task_B, task_C]"
  by (simp_all add: sorted_visible_def visible_def keep_ABC sort_key_def key_A key_B key_C)

lemma far_is_last:
  assumes "valid_date y m d" and "t_due_date x = Some (isoformat (Date y m d))"
    and "t_due_date x' = None"
  shows "due_or_far x \<le> due_or_far x'"
proof -
  have "isoformat (Date y m d) \<noteq> []" by (simp add: isoformat_def)
  with assms show ?thesis by (simp add: due_or_far_def isoformat_le_far)
qed

text \<open>
  Claim C3. Whatever the task list, the filter \<open>f\<close> and the search text \<open>s\<close>, the sorted
  records are the visible records, in ascending order of the key (completed, priority
  rank, due date or \<open>9999-12-31\<close>, created); records with equal keys keep their order.
  The tree holds their rows in this order. The key has the rank 0 for High, 2 for Low
  and 1 otherwise, and the string \<open>9999-12-31\<close> for a missing due date, which no date
  written by the program exceeds. The records A, B and C of the specification come out
  as A, B, C under the filter All, in whatever order the task list holds them.
\<close>

theorem sorted_visible_order:
  "sorted (map task_sort_key (sorted_visible f s ts)) \<and>
   mset (sorted_visible f s ts) = mset (visible f s ts) \<and>
   (\<forall>k. filter (\<lambda>t. task_sort_key t = k) (sorted_visible f s ts) =
        filter (\<lambda>t. task_sort_key t = k) (visible f s ts)) \<and>
   tree (snd (refresh_task_list e st)) =
     map (\<lambda>t. the (make_row (today e) t))
       (takeWhile (\<lambda>t. make_row (today e) t \<noteq> None)
          (sorted_visible (filter_var st) (strip (lower (search_var st))) (tasks st))) \<and>
   task_sort_key t =
     (t_completed t,
      (if t_priority t = ''High'' then 0 else if t_priority t = ''Low'' then 2 else 1),
      (if t_due_date t = None \<or> t_due_date t = Some [] then ''9999-12-31'' else the (t_due_date t)),
      t_created t) \<and>
   (valid_date y m d \<and> t_due_date x = Some (isoformat (Date y m d)) \<and> t_due_date x' = None \<longrightarrow>
      due_or_far x \<le> due_or_far x') \<and>
   sorted_visible ''All'' [] [task_A, task_B, task_C] = [task_A, task_B, task_C] \<and>
   sorted_visible ''All'' [] [task_A, task_C, task_B] = [task_A, task_B, task_C] \<and>
   sorted_visible ''All'' [] [task_B, task_A, task_C] = [task_A, task_B, task_C] \<and>
   sorted_visible ''All'' [] [task_B, task_C, task_A] = [task_A, task_B, task_C] \<and>
   sorted_visible ''All'' [] [task_C, task_A, task_B] = [task_A, task_B, task_C] \<and>
   sorted_visible ''All'' [] [task_C, task_B, task_A] = [task_A, task_B, task_C]"
proof -
  have "sorted (map task_sort_key (sorted_visible f s ts))"
    by (simp add: sorted_visible_def)
  moreover have "mset (sorted_visible f s ts) = mset (visible f s ts)"
    by (simp add: sorted_visible_def)
  moreover have "\<forall>k. filter (\<lambda>t. task_sort_key t = k) (sorted_visible f s ts) =
        filter (\<lambda>t. task_sort_key t = k) (visible f s ts)"
    by (simp add: sorted_visible_def sort_key_stable)
  moreover have "valid_date y m d \<and> t_due_date x = Some (isoformat (Date y m d)) \<and> t_due_date x' = None \<longrightarrow>
      due_or_far x \<le> due_or_far x'"
    by (blast intro: far_is_last)
  moreover note insert_rows_prefix [of "today e"] tree_refresh [of e st]
    task_sort_key_explicit [of t] sorted_ABC
  ultimately show ?thesis by simp
qed

text \<open>
  The theorem at a task due on 2024-02-03 and a task without due date: the first is not
  sorted after the second.
\<close>

theorem sorted_visible_order_witness:
  "valid_date 2024 2 3 \<and>
   due_or_far (example_task ''1'' ''High'' (Some ''2024-02-03'') False False)
     \<le> due_or_far (example_task ''2'' ''High'' None False False)"
proof -
  have v: "valid_date 2024 2 3"
    by (simp add: valid_date_def days_in_month_def is_leap_def)
  have i: "isoformat (Date 2024 2 3) = ''2024-02-03''"
    by (simp add: isoformat_def pad_def show_nat_small show_nat_large digit_char_numeral)
  note far =
    sorted_visible_order [of "''All''" "[]" "[]" "example_env (Date 2030 1 1)" "example_app []" task_A
      2024 2 3 "example_task ''1'' ''High'' (Some ''2024-02-03'') False False"
      "example_task ''2'' ''High'' None False False",
      THEN conjunct2, THEN conjunct2, THEN conjunct2, THEN conjunct2, THEN conjunct2, THEN conjunct1]
  show ?thesis
    using v i far by (simp add: example_task_def)
qed

section \<open>Tags and days left\<close>

lemma tags_spec:
  "((''overdue'' \<in> set (tags ref t)) =
      (\<not> t_completed t \<and> (\<exists>due d. t_due_date t = Some due \<and> strptime due = Some d \<and> date_less d ref))) \<and>
   (t_completed t \<longrightarrow> tags ref t = [''completed'']) \<and>
   (\<not> t_completed t \<longrightarrow>
      (\<exists>p\<in>{''high_priority'', ''medium_priority'', ''low_priority''}.
           tags ref t = [p] \<or> tags ref t = [p, ''overdue'']))"
proof (cases "t_completed t")
  case True
  then show ?thesis by (simp add: tags_def)
next
  case False
  show ?thesis
  proof (cases "snd (due_info ref t)")
    case None
    then have "\<not> (\<exists>due d. t_due_date t = Some due \<and> strptime due = Some d \<and> date_less d ref)"
      by (auto simp: due_info_def Let_def strptime_Nil split: option.splits if_splits)
    with None False show ?thesis by (simp add: tags_def)
  next
    case (Some d)
    then have "\<exists>due. t_due_date t = Some due \<and> strptime due = Some d"
      by (auto simp: due_info_def Let_def split: option.splits if_splits)
    with Some False show ?thesis by (auto simp: tags_def)
  qed
qed

text \<open>
  Claim C4. Every row of the tree is made from a record of the task list that is not
  deleted. For the record a row is made from: the row has the tag \<open>overdue\<close> exactly when
  the record is not completed and its due date is present, is read by \<^verbatim>\<open>strptime\<close> and
  lies strictly before the reference date; a completed record has the tag \<open>completed\<close>
  and no other; a record that is not completed has one priority tag, followed by
  \<open>overdue\<close> or by nothing.
\<close>

theorem overdue_and_tags:
  assumes "r \<in> set (tree (snd (refresh_task_list e st)))"
  shows "(\<exists>t\<in>set (tasks st). \<not> t_deleted t \<and> make_row (today e) t = Some r) \<and>
     (\<forall>t. make_row (today e) t = Some r \<longrightarrow>
        ((''overdue'' \<in> set (v_tags r)) =
           (\<not> t_completed t \<and>
            (\<exists>due d. t_due_date t = Some due \<and> strptime due = Some d \<and> date_less d (today e)))) \<and>
        (t_completed t \<longrightarrow> v_tags r = [''completed'']) \<and>
        (\<not> t_completed t \<longrightarrow>
           (\<exists>p\<in>{''high_priority'', ''medium_priority'', ''low_priority''}.
              v_tags r = [p] \<or> v_tags r = [p, ''overdue''])))"
proof (intro conjI allI impI)
  show "\<exists>t\<in>set (tasks st). \<not> t_deleted t \<and> make_row (today e) t = Some r"
    using assms by (rule row_of_task)
next
  fix t assume "make_row (today e) t = Some r"
  then have tg: "v_tags r = tags (today e) t" by (simp add: make_row_fields)
  show "(''overdue'' \<in> set (v_tags r)) =
           (\<not> t_completed t \<and>
            (\<exists>due d. t_due_date t = Some due \<and> strptime due = Some d \<and> date_less d (today e)))"
    unfolding tg using tags_spec [of "today e" t] by blast
  show "v_tags r = [''completed'']" if "t_completed t"
    unfolding tg using that tags_spec [of "today e" t] by blast
  show "\<exists>p\<in>{''high_priority'', ''medium_priority'', ''low_priority''}.
              v_tags r = [p] \<or> v_tags r = [p, ''overdue'']" if "\<not> t_completed t"
    unfolding tg using that tags_spec [of "today e" t] by blast
qed

text \<open>
  The theorem at the row of the record B on the first of January 2030.
\<close>

theorem overdue_and_tags_witness:
  "row_B \<in> set (tree (snd (refresh_task_list (example_env (Date 2030 1 1)) (example_app [task_B])))) \<and>
   ''overdue'' \<in> set (v_tags row_B) \<and> \<not> t_completed task_B \<and>
   t_due_date task_B = Some ''2000-01-01'' \<and> v_tags row_B = [''low_priority'', ''overdue'']"
proof -
  have h: "row_B \<in> set (tree (snd (refresh_task_list (example_env (Date 2030 1 1)) (example_app [task_B]))))"
    by (simp add: tree_B del: One_nat_def)
  show ?thesis
    using h overdue_and_tags [OF h]
    by (simp add: row_B_def task_B_def example_task_def del: One_nat_def)
qed










section \<open>A priority outside High, Medium and Low\<close>




end
